theory Spec2Isabelle
  imports Complex_Main "HOL-Library.Word"
begin

section \<open>The payment service of ShopEasy: \<^verbatim>\<open>supabase/functions/payments-simple/index.ts\<close>\<close>

text \<open>
  The edge function is one request handler. This theory embeds its two confirmation routes,
  \<^verbatim>\<open>GET /paystack/verify/:reference\<close> and \<^verbatim>\<open>POST /paystack/webhook\<close>, as functions from the
  database before the request to the response, the database after it and the trace of
  effects (provider calls, sleeps, database calls, \<^verbatim>\<open>console.error\<close> lines) in between.
  Everything the handler reads from outside (the clock, the provider's replies, whether a
  database call reports an error) is an explicit argument.
\<close>

subsection \<open>Dates\<close>

text \<open>
  A JavaScript \<^verbatim>\<open>Date\<close> by its UTC fields (the edge runtime's local time is UTC):
  \<^verbatim>\<open>getMonth\<close> counts from 0, \<^verbatim>\<open>getDate\<close> from 1; \<open>msec\<close> is the time within the day.
  \<^verbatim>\<open>toISOString\<close> is injective on valid dates, so a stored timestamp is kept as the date.
\<close>

record jsdate =
  year :: int
  month :: nat
  day :: nat
  msec :: nat

definition leap_year :: "int \<Rightarrow> bool" where
  "leap_year y = (y mod 4 = 0 \<and> (y mod 100 \<noteq> 0 \<or> y mod 400 = 0))"

definition days_in_month :: "int \<Rightarrow> nat \<Rightarrow> nat" where
  "days_in_month y m =
     (if m = 1 then (if leap_year y then 29 else 28)
      else if m = 3 \<or> m = 5 \<or> m = 8 \<or> m = 10 then 30
      else 31)"

text \<open>
  ECMAScript's MakeDay: a month beyond December carries into the year, and a day beyond
  the end of the month carries into the next month (31 January plus one month is 3 March,
  or 2 March in a leap year). One carry is enough for a day of at most 31, which is all the
  handler produces: the month after a short month has 31 days.
\<close>

definition make_date :: "int \<Rightarrow> nat \<Rightarrow> nat \<Rightarrow> nat \<Rightarrow> jsdate" where
  "make_date y m d t =
     (let y' = y + int (m div 12); m' = m mod 12; n = days_in_month y' m' in
      if d \<le> n then \<lparr>year = y', month = m', day = d, msec = t\<rparr>
      else if m' = 11 then \<lparr>year = y' + 1, month = 0, day = d - n, msec = t\<rparr>
      else \<lparr>year = y', month = m' + 1, day = d - n, msec = t\<rparr>)"

definition getMonth :: "jsdate \<Rightarrow> nat" where
  "getMonth d = month d"

definition getFullYear :: "jsdate \<Rightarrow> int" where
  "getFullYear d = year d"

definition setMonth :: "jsdate \<Rightarrow> nat \<Rightarrow> jsdate" where
  "setMonth d m = make_date (year d) m (day d) (msec d)"

definition setFullYear :: "jsdate \<Rightarrow> int \<Rightarrow> jsdate" where
  "setFullYear d y = make_date y (month d) (day d) (msec d)"

subsection \<open>Tables\<close>

text \<open>
  Modelled from the spec: the table declarations are not in the source. The payments table
  is keyed by \<open>reference\<close>, the subscriptions table by \<open>organization_id\<close> (the source's
  \<^verbatim>\<open>onConflict: 'organization_id'\<close>), the organizations table by \<open>id\<close>. The columns are
  those the handler reads and writes. \<open>billing_cycle\<close> and \<open>status\<close> are text columns:
  the handler compares them with string literals only.
\<close>

record payment =
  reference :: string
  provider :: string
  organization_id :: string
  user_id :: string
  plan_id :: string
  billing_cycle :: string
  amount :: int
  currency :: string
  status :: string
  verified_at :: "jsdate option"
  transaction_id :: "string option"

record subscription =
  sub_organization_id :: string
  sub_plan_id :: string
  sub_billing_cycle :: string
  sub_status :: string
  start_date :: jsdate
  end_date :: jsdate
  sub_amount :: int
  payment_reference :: string
  sub_provider :: string

record organization =
  subscription_status :: string
  subscription_plan :: string
  subscription_end_date :: "jsdate option"
  trial_start_date :: "jsdate option"

record db =
  payments :: "string \<rightharpoonup> payment"
  subscriptions :: "string \<rightharpoonup> subscription"
  organizations :: "string \<rightharpoonup> organization"

text \<open>\<^verbatim>\<open>.update(...).eq(key, k)\<close>: the row with that key is changed, and no row is no error.\<close>

definition update_row :: "('k \<rightharpoonup> 'v) \<Rightarrow> 'k \<Rightarrow> ('v \<Rightarrow> 'v) \<Rightarrow> ('k \<rightharpoonup> 'v)" where
  "update_row m k f = (case m k of None \<Rightarrow> m | Some v \<Rightarrow> m(k \<mapsto> f v))"

subsection \<open>The provider\<close>

text \<open>
  The \<^verbatim>\<open>data\<close> object of a Paystack reply or event. \<open>tx_id\<close> is \<^verbatim>\<open>data.id?.toString()\<close>:
  \<open>None\<close> when the provider sent no id.
\<close>

record paystack_tx =
  tx_status :: string
  tx_amount :: int
  tx_reference :: string
  tx_id :: "string option"
  tx_paid_at :: "string option"

text \<open>
  A reply to \<^verbatim>\<open>fetch\<close>: \<open>ok\<close> is \<^verbatim>\<open>paystackResponse.ok\<close>, \<open>env_status\<close> the truthiness of the
  envelope's \<^verbatim>\<open>status\<close>. A \<^verbatim>\<open>fetch\<close> that cannot reach the provider throws.
\<close>

record paystack_reply =
  ok :: bool
  env_status :: bool
  message :: "string option"
  data :: "paystack_tx option"

datatype fetch_result = Reply paystack_reply | NetworkError

record webhook_event =
  event :: string
  ev_data :: "paystack_tx option"

subsection \<open>Effects, responses and the world around one request\<close>

datatype effect =
    Fetch nat
  | Sleep nat
  | SelectPayment string
  | UpdatePayment string
  | UpsertSubscription string
  | UpdateOrganization string
  | ConsoleError string

datatype body =
    ErrorBody string
  | VerifyFailed string
  | PaymentNotFound string
  | VerifyOk string rat string "string option"
  | WebhookAck
  | EdgeError

record response =
  http_status :: nat
  body :: body

text \<open>The \<^verbatim>\<open>success\<close> field of a response body, where it has one.\<close>

fun success_flag :: "body \<Rightarrow> bool option" where
  "success_flag (VerifyFailed _) = Some False"
| "success_flag (PaymentNotFound _) = Some False"
| "success_flag (VerifyOk _ _ _ _) = Some True"
| "success_flag WebhookAck = Some True"
| "success_flag (ErrorBody _) = None"
| "success_flag EdgeError = None"

datatype call_result = Succeeds | ReturnsError | Throws

text \<open>
  What one request meets: the provider's answer to the n-th \<^verbatim>\<open>fetch\<close>, whether each
  database call reports an error, and the readings of the three \<^verbatim>\<open>new Date()\<close> calls
  (for \<^verbatim>\<open>verified_at\<close>, \<^verbatim>\<open>startDate\<close> and \<^verbatim>\<open>endDate\<close>, in this order).
\<close>

record ambient =
  gateway :: "nat \<Rightarrow> fetch_result"
  select_error :: bool
  update_error :: bool
  upsert_error :: bool
  org_update :: call_result
  t_verified :: jsdate
  t_start :: jsdate
  t_end :: jsdate

text \<open>
  The deployment: \<^verbatim>\<open>PAYSTACK_SECRET_KEY\<close>, and the two platform functions the handler
  calls, \<^verbatim>\<open>crypto.subtle\<close>'s HMAC SHA-512 on bytes and \<^verbatim>\<open>JSON.parse\<close> (\<open>None\<close>: it throws).
\<close>

record config =
  paystackSecretKey :: "string option"
  hmac_sha512 :: "8 word list \<Rightarrow> 8 word list \<Rightarrow> 8 word list"
  json_parse :: "string \<Rightarrow> webhook_event option"

type_synonym result = "response \<times> db \<times> effect list"

definition response_of :: "result \<Rightarrow> response" where
  "response_of r = fst r"

definition db_of :: "result \<Rightarrow> db" where
  "db_of r = fst (snd r)"

definition trace_of :: "result \<Rightarrow> effect list" where
  "trace_of r = snd (snd r)"

text \<open>\<^verbatim>\<open>!paystackSecretKey\<close>: unset or empty.\<close>

definition not_configured :: "string option \<Rightarrow> bool" where
  "not_configured k = (k = None \<or> k = Some [])"

subsection \<open>\<^verbatim>\<open>createHmacSha512\<close>\<close>

definition hex_digit :: "nat \<Rightarrow> char" where
  "hex_digit n = (''0123456789abcdef'') ! n"

text \<open>\<^verbatim>\<open>b.toString(16).padStart(2, '0')\<close>\<close>

definition hex_byte :: "8 word \<Rightarrow> string" where
  "hex_byte b = [hex_digit (unat b div 16), hex_digit (unat b mod 16)]"

definition encode :: "string \<Rightarrow> 8 word list" where
  "encode s = map of_char s"

definition createHmacSha512 ::
  "(8 word list \<Rightarrow> 8 word list \<Rightarrow> 8 word list) \<Rightarrow> string \<Rightarrow> string \<Rightarrow> string" where
  "createHmacSha512 sign secret msg = concat (map hex_byte (sign (encode secret) (encode msg)))"

subsection \<open>The verify route: the retry loop (lines 229 to 265)\<close>

text \<open>The early exit of the loop: an OK envelope whose transaction status is \<^verbatim>\<open>success\<close>.\<close>

definition verified :: "paystack_reply \<Rightarrow> bool" where
  "verified r =
     (ok r \<and> env_status r \<and> (case data r of None \<Rightarrow> False | Some tx \<Rightarrow> tx_status tx = ''success''))"

datatype loop_exit =
    LoopDone "paystack_reply option" nat "effect list"
  | LoopThrew "effect list"

text \<open>
  \<^verbatim>\<open>while (attempts < 3)\<close> with its variables as arguments: the attempts made, the last
  reply (\<^verbatim>\<open>null\<close> before the first) and the effects so far.
\<close>

function verify_loop ::
  "(nat \<Rightarrow> fetch_result) \<Rightarrow> nat \<Rightarrow> paystack_reply option \<Rightarrow> effect list \<Rightarrow> loop_exit" where
  "verify_loop gw attempts prev tr =
     (if attempts < 3 then
        (case gw (attempts + 1) of
           NetworkError \<Rightarrow> LoopThrew (tr @ [Fetch (attempts + 1)])
         | Reply r \<Rightarrow>
             if verified r then LoopDone (Some r) (attempts + 1) (tr @ [Fetch (attempts + 1)])
             else if attempts + 1 < 3
               then verify_loop gw (attempts + 1) (Some r) (tr @ [Fetch (attempts + 1), Sleep 2000])
               else verify_loop gw (attempts + 1) (Some r) (tr @ [Fetch (attempts + 1)]))
      else LoopDone prev attempts tr)"
  by pat_completeness auto
termination
  by (relation "measure (\<lambda>(gw, attempts, prev, tr). 3 - attempts)") auto

declare verify_loop.simps [simp del]

subsection \<open>The verify route: after the loop (lines 267 to 437)\<close>

text \<open>The outer \<^verbatim>\<open>catch\<close>: status 500, and whatever was written before the throw stays.\<close>

definition edge_function_error :: "db \<Rightarrow> effect list \<Rightarrow> result" where
  "edge_function_error d tr =
     (\<lparr>http_status = 500, body = EdgeError\<rparr>, d,
      tr @ [ConsoleError ''Edge function error:'', ConsoleError ''Stack:''])"

text \<open>\<^verbatim>\<open>.select('*').eq('reference', reference).single()\<close>\<close>

definition select_payment :: "ambient \<Rightarrow> db \<Rightarrow> string \<Rightarrow> payment option" where
  "select_payment amb d ref = (if select_error amb then None else payments d ref)"

text \<open>
  The columns an update writes: a key whose value is \<^verbatim>\<open>undefined\<close> is left out of the
  request, so a missing \<^verbatim>\<open>data.id\<close> leaves \<open>transaction_id\<close> as it was.
\<close>

definition mark_payment :: "string \<Rightarrow> jsdate \<Rightarrow> string option \<Rightarrow> payment \<Rightarrow> payment" where
  "mark_payment st t i p =
     p\<lparr>status := st, verified_at := Some t,
       transaction_id := (case i of None \<Rightarrow> transaction_id p | Some x \<Rightarrow> Some x)\<rparr>"

text \<open>Lines 321 to 334.\<close>

definition verify_update_payment ::
  "ambient \<Rightarrow> string \<Rightarrow> paystack_tx \<Rightarrow> db \<Rightarrow> db \<times> effect list" where
  "verify_update_payment amb ref paymentData d =
     (if update_error amb
      then (d, [UpdatePayment ref, ConsoleError ''Failed to update payment:''])
      else (d\<lparr>payments := update_row (payments d) ref
                 (mark_payment (if tx_status paymentData = ''success'' then ''completed'' else ''failed'')
                    (t_verified amb) (tx_id paymentData))\<rparr>,
            [UpdatePayment ref]))"

text \<open>Lines 352 to 362: the end date and the errors logged on the way.\<close>

definition verify_end_date :: "string \<Rightarrow> jsdate \<Rightarrow> jsdate \<times> effect list" where
  "verify_end_date cycle endDate =
     (if cycle = ''monthly'' then (setMonth endDate (getMonth endDate + 1), [])
      else if cycle = ''yearly'' then (setFullYear endDate (getFullYear endDate + 1), [])
      else (setMonth endDate (getMonth endDate + 1),
            [ConsoleError ''UNKNOWN BILLING CYCLE:'', ConsoleError ''Defaulting to monthly'']))"

text \<open>Lines 367 to 377, and 513 to 523 of the webhook: the row that is upserted.\<close>

definition subscriptionData :: "payment \<Rightarrow> string \<Rightarrow> jsdate \<Rightarrow> jsdate \<Rightarrow> subscription" where
  "subscriptionData p ref startDate endDate =
     \<lparr>sub_organization_id = organization_id p, sub_plan_id = plan_id p,
      sub_billing_cycle = billing_cycle p, sub_status = ''active'',
      start_date = startDate, end_date = endDate, sub_amount = amount p,
      payment_reference = ref, sub_provider = ''paystack''\<rparr>"

text \<open>Lines 399 to 419: the update of the organizations table inside its own \<^verbatim>\<open>try\<close>.\<close>

definition update_organization :: "ambient \<Rightarrow> payment \<Rightarrow> jsdate \<Rightarrow> db \<Rightarrow> db \<times> effect list" where
  "update_organization amb p endDate d =
     (case org_update amb of
        Succeeds \<Rightarrow>
          (d\<lparr>organizations := update_row (organizations d) (organization_id p)
                (\<lambda>org. org\<lparr>subscription_status := ''active'', subscription_plan := plan_id p,
                       subscription_end_date := Some endDate, trial_start_date := None\<rparr>)\<rparr>,
           [UpdateOrganization (organization_id p)])
      | ReturnsError \<Rightarrow>
          (d, [UpdateOrganization (organization_id p),
               ConsoleError ''Failed to update organization:'',
               ConsoleError ''Subscription is still active, org table just not synced yet''])
      | Throws \<Rightarrow>
          (d, [UpdateOrganization (organization_id p),
               ConsoleError ''Exception updating organization:'',
               ConsoleError ''This is non-critical, subscription is still active'']))"

text \<open>Lines 337 to 425: \<open>p\<close> is the payment row as it was read before the update.\<close>

definition verify_create_subscription ::
  "ambient \<Rightarrow> string \<Rightarrow> paystack_tx \<Rightarrow> payment \<Rightarrow> db \<Rightarrow> db \<times> effect list" where
  "verify_create_subscription amb ref paymentData p d =
     (if tx_status paymentData = ''success'' then
        (let startDate = t_start amb;
             (endDate, warn) = verify_end_date (billing_cycle p) (t_end amb);
             row = subscriptionData p ref startDate endDate
         in if upsert_error amb
            then (d, warn @ [UpsertSubscription (organization_id p),
                             ConsoleError ''Failed to create subscription:'',
                             ConsoleError ''Error details:''])
            else (let d1 = d\<lparr>subscriptions := (subscriptions d)(organization_id p \<mapsto> row)\<rparr>;
                      (d2, tr2) = update_organization amb p endDate d1
                  in (d2, warn @ [UpsertSubscription (organization_id p)] @ tr2)))
      else (d, []))"

text \<open>Lines 281 to 437.\<close>

definition verify_confirm ::
  "ambient \<Rightarrow> string \<Rightarrow> paystack_tx \<Rightarrow> db \<Rightarrow> effect list \<Rightarrow> result" where
  "verify_confirm amb ref paymentData d tr =
     (case select_payment amb d ref of
        None \<Rightarrow>
          (\<lparr>http_status = 404, body = PaymentNotFound ref\<rparr>, d,
           tr @ [SelectPayment ref, ConsoleError ''Payment record not found:'',
                 ConsoleError ''Reference:'',
                 ConsoleError ''This means payment was not initialized properly!''])
      | Some p \<Rightarrow>
          (let (d1, tr1) = verify_update_payment amb ref paymentData d;
               (d2, tr2) = verify_create_subscription amb ref paymentData p d1
           in (\<lparr>http_status = 200,
                body = VerifyOk (tx_status paymentData) (of_int (tx_amount paymentData) / 100)
                         (tx_reference paymentData) (tx_paid_at paymentData)\<rparr>,
               d2, tr @ [SelectPayment ref] @ tr1 @ tr2)))"

text \<open>
  Lines 204 to 438, for the reference cut out of the path (empty when the path has none).
  A reply without \<^verbatim>\<open>data\<close> makes \<^verbatim>\<open>paymentData.reference\<close> throw.
\<close>

definition paystack_verify :: "config \<Rightarrow> ambient \<Rightarrow> string \<Rightarrow> db \<Rightarrow> result" where
  "paystack_verify cfg amb ref d =
     (if ref = [] then
        (\<lparr>http_status = 400, body = ErrorBody ''Reference required''\<rparr>, d,
         [ConsoleError ''No reference provided''])
      else if not_configured (paystackSecretKey cfg) then
        (\<lparr>http_status = 500, body = ErrorBody ''Payment gateway not configured''\<rparr>, d,
         [ConsoleError ''PAYSTACK_SECRET_KEY not set!''])
      else
        (case verify_loop (gateway amb) 0 None [] of
           LoopThrew tr \<Rightarrow> edge_function_error d tr
         | LoopDone None n tr \<Rightarrow> edge_function_error d tr
         | LoopDone (Some r) n tr \<Rightarrow>
             if \<not> ok r \<or> \<not> env_status r then
               (\<lparr>http_status = 400,
                 body = VerifyFailed (case message r of
                                        None \<Rightarrow> ''Failed to verify payment''
                                      | Some m \<Rightarrow>
                                          if m = [] then ''Failed to verify payment'' else m)\<rparr>,
                d, tr @ [ConsoleError ''Verification failed after'',
                         ConsoleError ''Paystack response:''])
             else
               (case data r of
                  None \<Rightarrow> edge_function_error d tr
                | Some paymentData \<Rightarrow> verify_confirm amb ref paymentData d tr)))"

subsection \<open>The webhook route (lines 443 to 542)\<close>

text \<open>Lines 507 to 511.\<close>

definition webhook_end_date :: "string \<Rightarrow> jsdate \<Rightarrow> jsdate" where
  "webhook_end_date cycle endDate =
     (if cycle = ''monthly'' then setMonth endDate (getMonth endDate + 1)
      else setFullYear endDate (getFullYear endDate + 1))"

text \<open>Lines 492 to 499: the result of the update is not looked at.\<close>

definition webhook_update_payment ::
  "ambient \<Rightarrow> string \<Rightarrow> paystack_tx \<Rightarrow> db \<Rightarrow> db \<times> effect list" where
  "webhook_update_payment amb ref paymentData d =
     (if update_error amb then (d, [UpdatePayment ref])
      else (d\<lparr>payments := update_row (payments d) ref
                 (mark_payment ''completed'' (t_verified amb) (tx_id paymentData))\<rparr>,
            [UpdatePayment ref]))"

text \<open>Lines 504 to 529.\<close>

definition webhook_create_subscription ::
  "ambient \<Rightarrow> string \<Rightarrow> payment \<Rightarrow> db \<Rightarrow> db \<times> effect list" where
  "webhook_create_subscription amb ref p d =
     (let startDate = t_start amb;
          endDate = webhook_end_date (billing_cycle p) (t_end amb);
          row = subscriptionData p ref startDate endDate
      in if upsert_error amb
         then (d, [UpsertSubscription (organization_id p),
                   ConsoleError ''Failed to create subscription:''])
         else (d\<lparr>subscriptions := (subscriptions d)(organization_id p \<mapsto> row)\<rparr>,
               [UpsertSubscription (organization_id p)]))"

definition webhook_ack :: response where
  "webhook_ack = \<lparr>http_status = 200, body = WebhookAck\<rparr>"

text \<open>Lines 475 to 535. An event without \<^verbatim>\<open>data\<close> makes \<^verbatim>\<open>paymentData.reference\<close> throw.\<close>

definition webhook_process :: "ambient \<Rightarrow> webhook_event \<Rightarrow> db \<Rightarrow> result" where
  "webhook_process amb ev d =
     (if event ev = ''charge.success'' then
        (case ev_data ev of
           None \<Rightarrow> edge_function_error d []
         | Some paymentData \<Rightarrow>
             (let ref = tx_reference paymentData in
              case select_payment amb d ref of
                Some p \<Rightarrow>
                  (let (d1, tr1) = webhook_update_payment amb ref paymentData d;
                       (d2, tr2) = webhook_create_subscription amb ref p d1
                   in (webhook_ack, d2, [SelectPayment ref] @ tr1 @ tr2))
              | None \<Rightarrow>
                  (webhook_ack, d, [SelectPayment ref, ConsoleError ''Payment record not found:''])))
      else (webhook_ack, d, []))"

text \<open>
  Lines 443 to 542, for the \<^verbatim>\<open>x-paystack-signature\<close> header (\<open>None\<close> when absent) and the
  raw body.
\<close>

definition paystack_webhook :: "config \<Rightarrow> ambient \<Rightarrow> string option \<Rightarrow> string \<Rightarrow> db \<Rightarrow> result" where
  "paystack_webhook cfg amb signature raw d =
     (case paystackSecretKey cfg of
        None \<Rightarrow>
          (\<lparr>http_status = 500, body = ErrorBody ''Not configured''\<rparr>, d,
           [ConsoleError ''PAYSTACK_SECRET_KEY not set!''])
      | Some secret \<Rightarrow>
          if secret = [] then
            (\<lparr>http_status = 500, body = ErrorBody ''Not configured''\<rparr>, d,
             [ConsoleError ''PAYSTACK_SECRET_KEY not set!''])
          else if Some (createHmacSha512 (hmac_sha512 cfg) secret raw) \<noteq> signature then
            (\<lparr>http_status = 401, body = ErrorBody ''Invalid signature''\<rparr>, d,
             [ConsoleError ''Invalid webhook signature''])
          else
            (case json_parse cfg raw of
               None \<Rightarrow> edge_function_error d []
             | Some ev \<Rightarrow> webhook_process amb ev d))"

subsection \<open>Observations on a request\<close>

text \<open>
  The transaction the verify route goes on with after its loop: the \<^verbatim>\<open>data\<close> of the last
  reply when its envelope is OK, nothing when the envelope failed or a \<^verbatim>\<open>fetch\<close> threw.
\<close>

definition gateway_answer :: "ambient \<Rightarrow> paystack_tx option" where
  "gateway_answer amb =
     (case verify_loop (gateway amb) 0 None [] of
        LoopThrew tr \<Rightarrow> None
      | LoopDone None n tr \<Rightarrow> None
      | LoopDone (Some r) n tr \<Rightarrow> if ok r \<and> env_status r then data r else None)"

text \<open>The loop ended with a reply whose envelope failed.\<close>

definition envelope_failed :: "ambient \<Rightarrow> bool" where
  "envelope_failed amb =
     (case verify_loop (gateway amb) 0 None [] of
        LoopThrew tr \<Rightarrow> False
      | LoopDone None n tr \<Rightarrow> False
      | LoopDone (Some r) n tr \<Rightarrow> \<not> (ok r \<and> env_status r))"

text \<open>A \<^verbatim>\<open>fetch\<close> of the loop threw: the provider could not be reached.\<close>

definition gateway_unreachable :: "ambient \<Rightarrow> bool" where
  "gateway_unreachable amb =
     (case verify_loop (gateway amb) 0 None [] of
        LoopThrew tr \<Rightarrow> True
      | LoopDone prev n tr \<Rightarrow> False)"

definition loop_trace :: "ambient \<Rightarrow> effect list" where
  "loop_trace amb =
     (case verify_loop (gateway amb) 0 None [] of
        LoopThrew tr \<Rightarrow> tr
      | LoopDone prev n tr \<Rightarrow> tr)"

text \<open>The webhook's checks before it parses: a secret is set and the header is its digest.\<close>

definition webhook_accepts :: "config \<Rightarrow> string option \<Rightarrow> string \<Rightarrow> bool" where
  "webhook_accepts cfg signature raw =
     (case paystackSecretKey cfg of
        None \<Rightarrow> False
      | Some secret \<Rightarrow>
          secret \<noteq> [] \<and> signature = Some (createHmacSha512 (hmac_sha512 cfg) secret raw))"

text \<open>The effects of n attempts: a fetch each, two seconds of sleep between two of them.\<close>

fun attempt_trace :: "nat \<Rightarrow> effect list" where
  "attempt_trace 0 = []"
| "attempt_trace (Suc 0) = [Fetch 1]"
| "attempt_trace (Suc (Suc n)) = attempt_trace (Suc n) @ [Sleep 2000, Fetch (Suc (Suc n))]"

definition is_org_update :: "effect \<Rightarrow> bool" where
  "is_org_update e = (case e of UpdateOrganization x \<Rightarrow> True | _ \<Rightarrow> False)"

definition is_db_write :: "effect \<Rightarrow> bool" where
  "is_db_write e =
     (case e of UpdatePayment x \<Rightarrow> True | UpsertSubscription x \<Rightarrow> True
      | UpdateOrganization x \<Rightarrow> True | _ \<Rightarrow> False)"

text \<open>Any call to the database, the read of the payments table included.\<close>

definition is_db_call :: "effect \<Rightarrow> bool" where
  "is_db_call e =
     (case e of SelectPayment x \<Rightarrow> True | UpdatePayment x \<Rightarrow> True
      | UpsertSubscription x \<Rightarrow> True | UpdateOrganization x \<Rightarrow> True | _ \<Rightarrow> False)"

subsection \<open>A test deployment and test data\<close>

text \<open>
  Stand-ins for the two platform functions, for running the handler on concrete requests:
  a keyed digest that is the key followed by the message, and a parser that knows two
  bodies.
\<close>

definition tx_of :: "string \<Rightarrow> paystack_tx" where
  "tx_of st = \<lparr>tx_status = st, tx_amount = 500000, tx_reference = ''R1'',
              tx_id = Some ''4099260516'', tx_paid_at = Some ''2025-01-15T10:00:00.000Z''\<rparr>"

definition reply_of :: "string \<Rightarrow> paystack_reply" where
  "reply_of st = \<lparr>ok = True, env_status = True, message = Some ''Verification successful'',
                 data = Some (tx_of st)\<rparr>"

definition error_reply :: "string \<Rightarrow> paystack_reply" where
  "error_reply m = \<lparr>ok = False, env_status = False, message = Some m, data = None\<rparr>"

text \<open>An OK envelope that carries no \<^verbatim>\<open>data\<close>.\<close>

definition no_data_reply :: paystack_reply where
  "no_data_reply = \<lparr>ok = True, env_status = True, message = Some ''Verification successful'',
                    data = None\<rparr>"

definition settles_second :: "nat \<Rightarrow> fetch_result" where
  "settles_second n = Reply (reply_of (if n = 1 then ''ongoing'' else ''success''))"

definition demo_hmac :: "8 word list \<Rightarrow> 8 word list \<Rightarrow> 8 word list" where
  "demo_hmac k m = k @ m"

definition demo_parse :: "string \<Rightarrow> webhook_event option" where
  "demo_parse raw =
     (if raw = ''charge.success R1''
        then Some \<lparr>event = ''charge.success'', ev_data = Some (tx_of ''success'')\<rparr>
      else if raw = ''charge.failed R1''
        then Some \<lparr>event = ''charge.failed'', ev_data = Some (tx_of ''failed'')\<rparr>
      else None)"

definition cfg0 :: config where
  "cfg0 = \<lparr>paystackSecretKey = Some ''sk'', hmac_sha512 = demo_hmac, json_parse = demo_parse\<rparr>"

text \<open>The signature the provider sends with a body.\<close>

definition signed :: "string \<Rightarrow> string option" where
  "signed raw = Some (createHmacSha512 demo_hmac ''sk'' raw)"

definition at_day :: "nat \<Rightarrow> jsdate" where
  "at_day n = \<lparr>year = 2025, month = 0, day = n, msec = 36000000\<rparr>"

text \<open>A request during which no database call fails and the clock stands at \<open>t\<close>.\<close>

definition world :: "(nat \<Rightarrow> fetch_result) \<Rightarrow> jsdate \<Rightarrow> ambient" where
  "world gw t = \<lparr>gateway = gw, select_error = False, update_error = False,
                 upsert_error = False, org_update = Succeeds,
                 t_verified = t, t_start = t, t_end = t\<rparr>"

definition payment_R1 :: "string \<Rightarrow> string \<Rightarrow> payment" where
  "payment_R1 cycle st =
     \<lparr>reference = ''R1'', provider = ''paystack'', organization_id = ''org1'', user_id = ''u1'',
      plan_id = ''standard'', billing_cycle = cycle, amount = 500000, currency = ''NGN'',
      status = st, verified_at = None, transaction_id = None\<rparr>"

definition org1 :: organization where
  "org1 = \<lparr>subscription_status = ''trial'', subscription_plan = ''starter'',
           subscription_end_date = None, trial_start_date = Some (at_day 1)\<rparr>"

definition db_with :: "payment \<Rightarrow> db" where
  "db_with p = \<lparr>payments = [''R1'' \<mapsto> p], subscriptions = Map.empty,
               organizations = [''org1'' \<mapsto> org1]\<rparr>"

definition db_without :: db where
  "db_without = \<lparr>payments = Map.empty, subscriptions = Map.empty,
                 organizations = [''org1'' \<mapsto> org1]\<rparr>"

text \<open>
  The requests the properties below are tried on. A webhook request makes no provider
  call, so the gateway of its world is never asked.
\<close>

definition pending_db :: db where
  "pending_db = db_with (payment_R1 ''monthly'' ''pending'')"

definition first_run :: result where
  "first_run = paystack_verify cfg0 (world (\<lambda>n. Reply (reply_of ''success'')) (at_day 15)) ''R1''
                 pending_db"

definition second_run :: result where
  "second_run = paystack_webhook cfg0 (world (\<lambda>n. NetworkError) (at_day 16))
                  (signed ''charge.success R1'') ''charge.success R1'' (db_of first_run)"



definition repeated_verify_run :: result where
  "repeated_verify_run = paystack_verify cfg0 (world (\<lambda>n. Reply (reply_of ''success'')) (at_day 16))
                           ''R1'' (db_of first_run)"

definition quarterly_webhook_run :: result where
  "quarterly_webhook_run = paystack_webhook cfg0 (world (\<lambda>n. NetworkError) (at_day 15))
                             (signed ''charge.success R1'') ''charge.success R1''
                             (db_with (payment_R1 ''quarterly'' ''pending''))"

definition quarterly_verify_run :: result where
  "quarterly_verify_run = paystack_verify cfg0 (world (\<lambda>n. Reply (reply_of ''success'')) (at_day 15))
                            ''R1'' (db_with (payment_R1 ''quarterly'' ''pending''))"

definition outage_run :: result where
  "outage_run = paystack_verify cfg0
                  (world (\<lambda>n. Reply (error_reply ''Service unavailable'')) (at_day 15)) ''R1''
                  pending_db"

definition unreachable_run :: result where
  "unreachable_run = paystack_verify cfg0 (world (\<lambda>n. NetworkError) (at_day 15)) ''R1'' pending_db"

definition forged_run :: result where
  "forged_run = paystack_webhook cfg0 (world (\<lambda>n. NetworkError) (at_day 15))
                  (Some ''deadbeef'') ''charge.success R1'' pending_db"

definition unsigned_run :: result where
  "unsigned_run = paystack_webhook cfg0 (world (\<lambda>n. NetworkError) (at_day 15))
                    None ''charge.success R1'' pending_db"

definition orphan_run :: result where
  "orphan_run = paystack_verify cfg0 (world (\<lambda>n. Reply (reply_of ''success'')) (at_day 15)) ''R1''
                  db_without"

definition unknown_reference_run :: result where
  "unknown_reference_run =
     paystack_verify cfg0
       (world (\<lambda>n. Reply (error_reply ''Transaction reference not found'')) (at_day 15)) ''R1''
       db_without"

definition ignored_event_run :: result where
  "ignored_event_run = paystack_webhook cfg0 (world (\<lambda>n. NetworkError) (at_day 15))
                         (signed ''charge.failed R1'') ''charge.failed R1'' pending_db"

definition sync_fails :: "call_result \<Rightarrow> ambient" where
  "sync_fails r = (world (\<lambda>n. Reply (reply_of ''success'')) (at_day 15))\<lparr>org_update := r\<rparr>"

definition org_sync_run :: "call_result \<Rightarrow> result" where
  "org_sync_run r = paystack_verify cfg0 (sync_fails r) ''R1'' pending_db"

definition abandoned_run :: result where
  "abandoned_run = paystack_verify cfg0 (world (\<lambda>n. Reply (reply_of ''abandoned'')) (at_day 15))
                     ''R1'' pending_db"

definition no_data_run :: result where
  "no_data_run = paystack_verify cfg0 (world (\<lambda>n. Reply no_data_reply) (at_day 15)) ''R1''
                   db_without"

definition abandoned_orphan_run :: result where
  "abandoned_orphan_run =
     paystack_verify cfg0 (world (\<lambda>n. Reply (reply_of ''abandoned'')) (at_day 15)) ''R1''
       db_without"

section \<open>Properties\<close>

subsection \<open>The retry loop, unrolled\<close>

lemma loop3: "verify_loop gw 3 p tr = LoopDone p 3 tr"
  by (subst verify_loop.simps) simp

lemma loop2:
  "verify_loop gw 2 p tr =
     (case gw 3 of NetworkError \<Rightarrow> LoopThrew (tr @ [Fetch 3])
      | Reply r \<Rightarrow> LoopDone (Some r) 3 (tr @ [Fetch 3]))"
  by (subst verify_loop.simps) (simp add: loop3 split: fetch_result.splits)

lemma loop1:
  "verify_loop gw 1 p tr =
     (case gw 2 of NetworkError \<Rightarrow> LoopThrew (tr @ [Fetch 2])
      | Reply r \<Rightarrow> if verified r then LoopDone (Some r) 2 (tr @ [Fetch 2])
                   else verify_loop gw 2 (Some r) (tr @ [Fetch 2, Sleep 2000]))"
  by (subst verify_loop.simps) (simp del: One_nat_def split: fetch_result.splits)

lemma loop0:
  "verify_loop gw 0 p tr =
     (case gw 1 of NetworkError \<Rightarrow> LoopThrew (tr @ [Fetch 1])
      | Reply r \<Rightarrow> if verified r then LoopDone (Some r) 1 (tr @ [Fetch 1])
                   else verify_loop gw 1 (Some r) (tr @ [Fetch 1, Sleep 2000]))"
  by (subst verify_loop.simps) (simp del: One_nat_def split: fetch_result.splits)

lemma attempt_trace_1: "attempt_trace 1 = [Fetch 1]"
  by simp

lemma attempt_trace_2: "attempt_trace 2 = [Fetch 1, Sleep 2000, Fetch 2]"
  by (simp add: numeral_2_eq_2)

lemma attempt_trace_3: "attempt_trace 3 = [Fetch 1, Sleep 2000, Fetch 2, Sleep 2000, Fetch 3]"
  by (simp add: numeral_3_eq_3 numeral_2_eq_2)

lemma below2: "1 \<le> i \<and> i < (2::nat) \<longleftrightarrow> i = 1"
  by auto

lemma below3: "1 \<le> i \<and> i < (3::nat) \<longleftrightarrow> i = 1 \<or> i = 2"
  by auto

lemma verified_reply_of: "verified (reply_of st) \<longleftrightarrow> st = ''success''"
  by (simp add: verified_def reply_of_def tx_of_def)

subsection \<open>The routes, step by step\<close>

lemma verify_reached:
  assumes "ref \<noteq> []" and "\<not> not_configured (paystackSecretKey cfg)"
    and "gateway_answer amb = Some tx"
  shows "paystack_verify cfg amb ref d = verify_confirm amb ref tx d (loop_trace amb)"
  using assms
  by (auto simp: paystack_verify_def gateway_answer_def loop_trace_def
      split: loop_exit.splits option.splits if_splits)

lemma webhook_reached:
  assumes "webhook_accepts cfg signature raw" and "json_parse cfg raw = Some ev"
  shows "paystack_webhook cfg amb signature raw d = webhook_process amb ev d"
  using assms
  by (auto simp: paystack_webhook_def webhook_accepts_def split: option.splits)

lemma select_payment_Some:
  "select_payment amb d ref = Some p \<longleftrightarrow> \<not> select_error amb \<and> payments d ref = Some p"
  by (simp add: select_payment_def)

lemma update_row_Some: "m k = Some v \<Longrightarrow> update_row m k f = m(k \<mapsto> f v)"
  by (simp add: update_row_def)

lemma subscriptions_verify_update_payment [simp]:
  "subscriptions (fst (verify_update_payment amb ref tx d)) = subscriptions d"
  by (simp add: verify_update_payment_def)

lemma organizations_verify_update_payment [simp]:
  "organizations (fst (verify_update_payment amb ref tx d)) = organizations d"
  by (simp add: verify_update_payment_def)

lemma subscriptions_webhook_update_payment [simp]:
  "subscriptions (fst (webhook_update_payment amb ref tx d)) = subscriptions d"
  by (simp add: webhook_update_payment_def)

lemma subscriptions_update_organization [simp]:
  "subscriptions (fst (update_organization amb p e d)) = subscriptions d"
  by (simp add: update_organization_def split: call_result.splits)

lemma payments_update_organization [simp]:
  "payments (fst (update_organization amb p e d)) = payments d"
  by (simp add: update_organization_def split: call_result.splits)

lemma payments_verify_create_subscription [simp]:
  "payments (fst (verify_create_subscription amb ref tx p d)) = payments d"
  by (simp add: verify_create_subscription_def Let_def case_prod_beta)

lemma payments_webhook_create_subscription [simp]:
  "payments (fst (webhook_create_subscription amb ref p d)) = payments d"
  by (simp add: webhook_create_subscription_def Let_def)

lemma db_of_verify_confirm:
  "select_payment amb d ref = Some p \<Longrightarrow>
   db_of (verify_confirm amb ref tx d tr) =
     fst (verify_create_subscription amb ref tx p (fst (verify_update_payment amb ref tx d)))"
  by (simp add: verify_confirm_def db_of_def Let_def case_prod_beta)

lemma db_of_webhook_process:
  "event ev = ''charge.success'' \<Longrightarrow> ev_data ev = Some tx \<Longrightarrow>
   select_payment amb d (tx_reference tx) = Some p \<Longrightarrow>
   db_of (webhook_process amb ev d) =
     fst (webhook_create_subscription amb (tx_reference tx) p
            (fst (webhook_update_payment amb (tx_reference tx) tx d)))"
  by (simp add: webhook_process_def db_of_def Let_def case_prod_beta)

lemma verify_subscriptions:
  assumes "select_payment amb d ref = Some p" and "\<not> upsert_error amb"
    and "tx_status tx = ''success''"
  shows "subscriptions (db_of (verify_confirm amb ref tx d tr)) =
           (subscriptions d)(organization_id p \<mapsto>
              subscriptionData p ref (t_start amb)
                (fst (verify_end_date (billing_cycle p) (t_end amb))))"
  using assms
  by (simp add: db_of_verify_confirm verify_create_subscription_def Let_def case_prod_beta)

lemma webhook_subscriptions:
  assumes "select_payment amb d (tx_reference tx) = Some p" and "\<not> upsert_error amb"
    and "event ev = ''charge.success''" and "ev_data ev = Some tx"
  shows "subscriptions (db_of (webhook_process amb ev d)) =
           (subscriptions d)(organization_id p \<mapsto>
              subscriptionData p (tx_reference tx) (t_start amb)
                (webhook_end_date (billing_cycle p) (t_end amb)))"
  using assms
  by (simp add: db_of_webhook_process webhook_create_subscription_def Let_def case_prod_beta)

lemma verify_payments:
  assumes "select_payment amb d ref = Some p" and "\<not> update_error amb"
  shows "payments (db_of (verify_confirm amb ref tx d tr)) =
           (payments d)(ref \<mapsto>
              mark_payment (if tx_status tx = ''success'' then ''completed'' else ''failed'')
                (t_verified amb) (tx_id tx) p)"
  using assms
  by (simp add: db_of_verify_confirm verify_update_payment_def select_payment_Some
      update_row_Some)


lemma response_of_verify_confirm:
  "select_payment amb d ref = Some p \<Longrightarrow>
   response_of (verify_confirm amb ref tx d tr) =
     \<lparr>http_status = 200,
      body = VerifyOk (tx_status tx) (of_int (tx_amount tx) / 100) (tx_reference tx) (tx_paid_at tx)\<rparr>"
  by (simp add: verify_confirm_def response_of_def Let_def case_prod_beta)

lemma trace_of_verify_confirm:
  "select_payment amb d ref = Some p \<Longrightarrow>
   trace_of (verify_confirm amb ref tx d tr) =
     tr @ [SelectPayment ref] @ snd (verify_update_payment amb ref tx d) @
     snd (verify_create_subscription amb ref tx p (fst (verify_update_payment amb ref tx d)))"
  by (simp add: verify_confirm_def trace_of_def Let_def case_prod_beta)

lemma verify_confirm_not_found:
  "select_payment amb d ref = None \<Longrightarrow>
   verify_confirm amb ref tx d tr =
     (\<lparr>http_status = 404, body = PaymentNotFound ref\<rparr>, d,
      tr @ [SelectPayment ref, ConsoleError ''Payment record not found:'',
            ConsoleError ''Reference:'',
            ConsoleError ''This means payment was not initialized properly!''])"
  by (simp add: verify_confirm_def)


lemma loop_trace_cases:
  "loop_trace amb = attempt_trace 1 \<or> loop_trace amb = attempt_trace 2 \<or>
   loop_trace amb = attempt_trace 3"
  by (simp add: loop_trace_def loop0 loop1 loop2 attempt_trace_1 attempt_trace_2
      attempt_trace_3 del: One_nat_def split: fetch_result.splits)

lemma loop_trace_no_write [simp]: "filter is_db_write (loop_trace amb) = []"
  using loop_trace_cases [of amb]
  by (auto simp: attempt_trace_1 attempt_trace_2 attempt_trace_3 is_db_write_def
      simp del: One_nat_def)

lemma loop_trace_no_org_update [simp]: "filter is_org_update (loop_trace amb) = []"
  using loop_trace_cases [of amb]
  by (auto simp: attempt_trace_1 attempt_trace_2 attempt_trace_3 is_org_update_def
      simp del: One_nat_def)

lemma verify_gateway_failed:
  assumes "ref \<noteq> []" and "\<not> not_configured (paystackSecretKey cfg)"
    and "envelope_failed amb"
  shows "db_of (paystack_verify cfg amb ref d) = d"
    and "http_status (response_of (paystack_verify cfg amb ref d)) = 400"
    and "success_flag (body (response_of (paystack_verify cfg amb ref d))) = Some False"
    and "trace_of (paystack_verify cfg amb ref d) =
           loop_trace amb @ [ConsoleError ''Verification failed after'',
                             ConsoleError ''Paystack response:'']"
  using assms
  by (auto simp: paystack_verify_def envelope_failed_def loop_trace_def db_of_def
      response_of_def trace_of_def split: loop_exit.splits option.splits)

lemma loop_trace_no_db_call [simp]: "filter is_db_call (loop_trace amb) = []"
  using loop_trace_cases [of amb]
  by (auto simp: attempt_trace_1 attempt_trace_2 attempt_trace_3 is_db_call_def
      simp del: One_nat_def)

lemma verify_no_transaction:
  assumes "ref \<noteq> []" and "\<not> not_configured (paystackSecretKey cfg)"
    and "gateway_answer amb = None" and "\<not> envelope_failed amb"
  shows "paystack_verify cfg amb ref d = edge_function_error d (loop_trace amb)"
  using assms
  by (auto simp: paystack_verify_def gateway_answer_def envelope_failed_def loop_trace_def
      split: loop_exit.splits option.splits if_splits)

lemma verify_gateway_unreachable:
  assumes "ref \<noteq> []" and "\<not> not_configured (paystackSecretKey cfg)"
    and "gateway_unreachable amb"
  shows "paystack_verify cfg amb ref d = edge_function_error d (loop_trace amb)"
  using assms
  by (auto simp: paystack_verify_def gateway_unreachable_def loop_trace_def
      split: loop_exit.splits option.splits)

lemma edge_function_error_simps [simp]:
  "db_of (edge_function_error d tr) = d"
  "http_status (response_of (edge_function_error d tr)) = 500"
  "success_flag (body (response_of (edge_function_error d tr))) = None"
  "trace_of (edge_function_error d tr) =
     tr @ [ConsoleError ''Edge function error:'', ConsoleError ''Stack:'']"
  by (simp_all add: edge_function_error_def db_of_def response_of_def trace_of_def)

lemma organizations_verify_create_subscription:
  "org_update amb \<noteq> Succeeds \<Longrightarrow>
   organizations (fst (verify_create_subscription amb ref tx p d)) = organizations d"
  by (simp add: verify_create_subscription_def update_organization_def Let_def case_prod_beta
      split: call_result.splits)

lemma verify_end_date_no_org_update [simp]:
  "filter is_org_update (snd (verify_end_date c t)) = []"
  by (simp add: verify_end_date_def is_org_update_def)

lemma verify_update_payment_no_org_update [simp]:
  "filter is_org_update (snd (verify_update_payment amb ref tx d)) = []"
  by (simp add: verify_update_payment_def is_org_update_def)

lemma update_organization_once [simp]:
  "length (filter is_org_update (snd (update_organization amb p e d))) = 1"
  by (simp add: update_organization_def is_org_update_def split: call_result.splits)

lemma update_organization_logs:
  "org_update amb \<noteq> Succeeds \<Longrightarrow>
   ConsoleError (if org_update amb = Throws then ''Exception updating organization:''
                 else ''Failed to update organization:'')
     \<in> set (snd (update_organization amb p e d))"
  by (simp add: update_organization_def split: call_result.splits)

lemma trace_of_verify_create_subscription:
  "tx_status tx = ''success'' \<Longrightarrow> \<not> upsert_error amb \<Longrightarrow>
   snd (verify_create_subscription amb ref tx p d) =
     snd (verify_end_date (billing_cycle p) (t_end amb)) @ [UpsertSubscription (organization_id p)] @
     snd (update_organization amb p (fst (verify_end_date (billing_cycle p) (t_end amb)))
            (d\<lparr>subscriptions := (subscriptions d)(organization_id p \<mapsto>
                 subscriptionData p ref (t_start amb)
                   (fst (verify_end_date (billing_cycle p) (t_end amb))))\<rparr>))"
  by (simp add: verify_create_subscription_def Let_def case_prod_beta)

lemma bad_request_iff:
  "http_status (response_of (paystack_verify cfg amb ref d)) = 400 \<and>
   success_flag (body (response_of (paystack_verify cfg amb ref d))) = Some False \<longleftrightarrow>
   ref \<noteq> [] \<and> \<not> not_configured (paystackSecretKey cfg) \<and> envelope_failed amb"
  by (auto simp: paystack_verify_def envelope_failed_def response_of_def
      edge_function_error_def verify_confirm_def Let_def case_prod_beta
      split: loop_exit.splits option.splits)

subsection \<open>One month and one year later\<close>

text \<open>
  For a day that every month has, \<^verbatim>\<open>setMonth(getMonth() + 1)\<close> is the same day and time of
  the next calendar month, and \<^verbatim>\<open>setFullYear(getFullYear() + 1)\<close> the same day and time of
  the next calendar year.
\<close>

lemma days_in_month_ge_28: "28 \<le> days_in_month y m"
  by (simp add: days_in_month_def)

lemma next_month_same_day:
  assumes "month t < 12" and "day t \<le> 28"
  shows "setMonth t (getMonth t + 1) =
           \<lparr>year = (if month t = 11 then year t + 1 else year t),
            month = (if month t = 11 then 0 else month t + 1),
            day = day t, msec = msec t\<rparr>"
proof -
  have fits: "day t \<le> days_in_month y m" for y m
    using assms(2) days_in_month_ge_28 [of y m] by simp
  show ?thesis
  proof (cases "month t = 11")
    case True
    then show ?thesis
      by (simp add: setMonth_def getMonth_def make_date_def Let_def fits)
  next
    case False
    with assms(1) have "(month t + 1) div 12 = 0" and "(month t + 1) mod 12 = month t + 1"
      by simp_all
    with False show ?thesis
      by (simp add: setMonth_def getMonth_def make_date_def Let_def fits)
  qed
qed

lemma next_year_same_day:
  assumes "month t < 12" and "day t \<le> 28"
  shows "setFullYear t (getFullYear t + 1) =
           \<lparr>year = year t + 1, month = month t, day = day t, msec = msec t\<rparr>"
proof -
  have fits: "day t \<le> days_in_month y m" for y m
    using assms(2) days_in_month_ge_28 [of y m] by simp
  from assms(1) show ?thesis
    by (simp add: setFullYear_def getFullYear_def make_date_def Let_def fits)
qed

text \<open>The two routes agree on the two known cycles, and the verify route logs nothing there.\<close>

lemma known_cycles_agree:
  assumes "c = ''monthly'' \<or> c = ''yearly''"
  shows "verify_end_date c t = (webhook_end_date c t, [])"
  using assms by (auto simp: verify_end_date_def webhook_end_date_def)

text \<open>On any other cycle they part.\<close>

lemma verify_end_date_other:
  assumes "c \<noteq> ''monthly''" and "c \<noteq> ''yearly''"
  shows "verify_end_date c t =
           (setMonth t (getMonth t + 1),
            [ConsoleError ''UNKNOWN BILLING CYCLE:'', ConsoleError ''Defaulting to monthly''])"
  using assms by (simp add: verify_end_date_def)

lemma webhook_end_date_other:
  assumes "c \<noteq> ''monthly''"
  shows "webhook_end_date c t = setFullYear t (getFullYear t + 1)"
  using assms by (simp add: webhook_end_date_def)

subsection \<open>The test data, evaluated\<close>

lemma gateway_answer_world [simp]:
  "gateway_answer (world (\<lambda>n. Reply (reply_of st)) t) = Some (tx_of st)"
  by (simp add: gateway_answer_def world_def loop0 loop1 loop2 verified_reply_of reply_of_def
      del: One_nat_def)

lemma cfg0_configured [simp]: "\<not> not_configured (paystackSecretKey cfg0)"
  by (simp add: not_configured_def cfg0_def)

lemma cfg0_accepts_signed [simp]: "webhook_accepts cfg0 (signed raw) raw"
  by (simp add: webhook_accepts_def cfg0_def signed_def)

lemma cfg0_parse_success [simp]:
  "json_parse cfg0 ''charge.success R1'' =
     Some \<lparr>event = ''charge.success'', ev_data = Some (tx_of ''success'')\<rparr>"
  by (simp add: cfg0_def demo_parse_def)

lemma cfg0_parse_failed [simp]:
  "json_parse cfg0 ''charge.failed R1'' =
     Some \<lparr>event = ''charge.failed'', ev_data = Some (tx_of ''failed'')\<rparr>"
  by (simp add: cfg0_def demo_parse_def)

lemma world_simps [simp]:
  "gateway (world gw t) = gw" "\<not> select_error (world gw t)" "\<not> update_error (world gw t)"
  "\<not> upsert_error (world gw t)" "org_update (world gw t) = Succeeds"
  "t_verified (world gw t) = t" "t_start (world gw t) = t" "t_end (world gw t) = t"
  by (simp_all add: world_def)

lemma tx_of_simps [simp]:
  "tx_status (tx_of st) = st" "tx_reference (tx_of st) = ''R1''"
  "tx_id (tx_of st) = Some ''4099260516''" "tx_amount (tx_of st) = 500000"
  by (simp_all add: tx_of_def)

lemma tx_paid_at_tx_of [simp]: "tx_paid_at (tx_of st) = Some ''2025-01-15T10:00:00.000Z''"
  by (simp add: tx_of_def)

lemma payment_R1_simps [simp]:
  "organization_id (payment_R1 c st) = ''org1''" "billing_cycle (payment_R1 c st) = c"
  "status (payment_R1 c st) = st" "transaction_id (payment_R1 c st) = None"
  by (simp_all add: payment_R1_def)

lemma db_with_simps [simp]:
  "payments (db_with p) = [''R1'' \<mapsto> p]" "subscriptions (db_with p) = Map.empty"
  by (simp_all add: db_with_def)

lemma organizations_db_with [simp]: "organizations (db_with p) = [''org1'' \<mapsto> org1]"
  by (simp add: db_with_def)

lemma mark_payment_simps [simp]:
  "organization_id (mark_payment st t i p) = organization_id p"
  "billing_cycle (mark_payment st t i p) = billing_cycle p"
  "plan_id (mark_payment st t i p) = plan_id p"
  "amount (mark_payment st t i p) = amount p"
  "status (mark_payment st t i p) = st"
  "verified_at (mark_payment st t i p) = Some t"
  by (simp_all add: mark_payment_def)

lemma subscriptionData_simps [simp]:
  "start_date (subscriptionData p ref s e) = s" "end_date (subscriptionData p ref s e) = e"
  "payment_reference (subscriptionData p ref s e) = ref"
  by (simp_all add: subscriptionData_def)

lemma select_pending [simp]:
  "select_payment (world gw t) (db_with p) ''R1'' = Some p"
  by (simp add: select_payment_Some)

lemma select_without [simp]: "select_payment amb db_without ref = None"
  by (simp add: select_payment_def db_without_def)

lemma no_data_world [simp]:
  "gateway_answer (world (\<lambda>n. Reply no_data_reply) t) = None"
  "\<not> envelope_failed (world (\<lambda>n. Reply no_data_reply) t)"
  by (simp_all add: gateway_answer_def envelope_failed_def loop0 loop1 loop2 verified_def
      no_data_reply_def del: One_nat_def)

lemma envelope_failed_world [simp]:
  "envelope_failed (world (\<lambda>n. Reply (error_reply m)) t)"
  by (simp add: envelope_failed_def loop0 loop1 loop2 verified_def error_reply_def
      del: One_nat_def)

lemma not_unreachable_world [simp]:
  "\<not> gateway_unreachable (world (\<lambda>n. Reply r) t)"
  by (simp add: gateway_unreachable_def loop0 loop1 loop2 del: One_nat_def)

lemma gateway_unreachable_world [simp]:
  "gateway_unreachable (world (\<lambda>n. NetworkError) t)"
  by (simp add: gateway_unreachable_def loop0 del: One_nat_def)

lemma gateway_answer_org_update [simp]:
  "gateway_answer (amb\<lparr>org_update := r\<rparr>) = gateway_answer amb"
  by (simp add: gateway_answer_def)

lemma select_payment_org_update [simp]:
  "select_payment (amb\<lparr>org_update := r\<rparr>) d ref = select_payment amb d ref"
  by (simp add: select_payment_def)

lemma sync_fails_simps [simp]:
  "gateway_answer (sync_fails r) = Some (tx_of ''success'')"
  "select_payment (sync_fails r) (db_with p) ''R1'' = Some p"
  "\<not> upsert_error (sync_fails r)" "org_update (sync_fails r) = r"
  by (simp_all add: sync_fails_def)

lemma first_run_payments:
  "payments (db_of first_run) =
     [''R1'' \<mapsto> mark_payment ''completed'' (at_day 15) (Some ''4099260516'')
                   (payment_R1 ''monthly'' ''pending'')]"
  by (simp add: first_run_def pending_db_def verify_reached verify_payments select_payment_Some)

lemma first_run_subscriptions:
  "subscriptions (db_of first_run) =
     [''org1'' \<mapsto> subscriptionData (payment_R1 ''monthly'' ''pending'') ''R1'' (at_day 15)
                     (fst (verify_end_date ''monthly'' (at_day 15)))]"
  by (simp add: first_run_def pending_db_def verify_reached verify_subscriptions
      select_payment_Some)



lemma webhook_end_date_at_day:
  assumes "n \<le> 28"
  shows "webhook_end_date c (at_day n) =
           (if c = ''monthly'' then \<lparr>year = 2025, month = 1, day = n, msec = 36000000\<rparr>
            else \<lparr>year = 2026, month = 0, day = n, msec = 36000000\<rparr>)"
  using assms
  by (simp add: webhook_end_date_def setMonth_def getMonth_def setFullYear_def getFullYear_def
      at_day_def make_date_def days_in_month_def leap_year_def Let_def)

lemma verify_end_date_at_day:
  assumes "n \<le> 28"
  shows "fst (verify_end_date c (at_day n)) =
           (if c = ''yearly'' then \<lparr>year = 2026, month = 0, day = n, msec = 36000000\<rparr>
            else \<lparr>year = 2025, month = 1, day = n, msec = 36000000\<rparr>)"
  using assms
  by (simp add: verify_end_date_def setMonth_def getMonth_def setFullYear_def getFullYear_def
      at_day_def make_date_def days_in_month_def leap_year_def Let_def)

subsection \<open>Repeated confirmations and the subscription row\<close>

text \<open>
  C1, as the code has it. Both routes upsert without looking at the row they replace. When
  the payment row of the reference is found and the upsert succeeds, a verify request that
  the provider answers with \<^verbatim>\<open>success\<close>, and a signed \<^verbatim>\<open>charge.success\<close> event, each leave
  the subscriptions table as it was but for the one row of the payment's organization, which
  is the row built in this run from this run's clock readings, whatever row was there
  before and whatever \<open>payment_reference\<close> it carried.
\<close>

theorem confirmation_rewrites_subscription:
  assumes "select_payment amb d ref = Some p" and "\<not> upsert_error amb"
  shows "(ref \<noteq> [] \<and> \<not> not_configured (paystackSecretKey cfg) \<and>
          gateway_answer amb = Some tx \<and> tx_status tx = ''success'' \<longrightarrow>
            subscriptions (db_of (paystack_verify cfg amb ref d)) =
              (subscriptions d)(organization_id p \<mapsto>
                 subscriptionData p ref (t_start amb)
                   (fst (verify_end_date (billing_cycle p) (t_end amb))))) \<and>
         (webhook_accepts cfg signature raw \<and> json_parse cfg raw = Some ev \<and>
          event ev = ''charge.success'' \<and> ev_data ev = Some tx \<and> tx_reference tx = ref \<longrightarrow>
            subscriptions (db_of (paystack_webhook cfg amb signature raw d)) =
              (subscriptions d)(organization_id p \<mapsto>
                 subscriptionData p ref (t_start amb)
                   (webhook_end_date (billing_cycle p) (t_end amb))))"
proof (intro conjI impI)
  assume a: "ref \<noteq> [] \<and> \<not> not_configured (paystackSecretKey cfg) \<and>
          gateway_answer amb = Some tx \<and> tx_status tx = ''success''"
  then have "paystack_verify cfg amb ref d = verify_confirm amb ref tx d (loop_trace amb)"
    by (simp add: verify_reached)
  with assms a show "subscriptions (db_of (paystack_verify cfg amb ref d)) =
              (subscriptions d)(organization_id p \<mapsto>
                 subscriptionData p ref (t_start amb)
                   (fst (verify_end_date (billing_cycle p) (t_end amb))))"
    by (simp add: db_of_verify_confirm verify_create_subscription_def Let_def case_prod_beta)
next
  assume a: "webhook_accepts cfg signature raw \<and> json_parse cfg raw = Some ev \<and>
          event ev = ''charge.success'' \<and> ev_data ev = Some tx \<and> tx_reference tx = ref"
  then have "paystack_webhook cfg amb signature raw d = webhook_process amb ev d"
    by (simp add: webhook_reached)
  with assms a show "subscriptions (db_of (paystack_webhook cfg amb signature raw d)) =
              (subscriptions d)(organization_id p \<mapsto>
                 subscriptionData p ref (t_start amb)
                   (webhook_end_date (billing_cycle p) (t_end amb)))"
    by (simp add: db_of_webhook_process webhook_create_subscription_def Let_def case_prod_beta)
qed

text \<open>
  A verify on day 15 followed, on day 16, by the webhook for the same reference, or by a
  second verify: the second run finds a row that already carries the reference and
  writes its own row.
\<close>

theorem confirmation_rewrites_subscription_witness:
  "subscriptions (db_of second_run) ''org1'' =
     Some (subscriptionData (mark_payment ''completed'' (at_day 15) (Some ''4099260516'')
             (payment_R1 ''monthly'' ''pending'')) ''R1'' (at_day 16)
             (webhook_end_date ''monthly'' (at_day 16))) \<and>
   subscriptions (db_of repeated_verify_run) ''org1'' =
     Some (subscriptionData (mark_payment ''completed'' (at_day 15) (Some ''4099260516'')
             (payment_R1 ''monthly'' ''pending'')) ''R1'' (at_day 16)
             (fst (verify_end_date ''monthly'' (at_day 16))))"
proof -
  have sel: "select_payment (world (\<lambda>n. NetworkError) (at_day 16)) (db_of first_run) ''R1'' =
             Some (mark_payment ''completed'' (at_day 15) (Some ''4099260516'')
                     (payment_R1 ''monthly'' ''pending''))"
    by (simp add: select_payment_Some first_run_payments)
  have up: "\<not> upsert_error (world (\<lambda>n. NetworkError) (at_day 16))"
    by simp
  have sel': "select_payment (world (\<lambda>n. Reply (reply_of ''success'')) (at_day 16))
                (db_of first_run) ''R1'' =
              Some (mark_payment ''completed'' (at_day 15) (Some ''4099260516'')
                      (payment_R1 ''monthly'' ''pending''))"
    by (simp add: select_payment_Some first_run_payments)
  have up': "\<not> upsert_error (world (\<lambda>n. Reply (reply_of ''success'')) (at_day 16))"
    by simp
  show ?thesis
    using confirmation_rewrites_subscription [OF sel up, where cfg = cfg0
        and signature = "signed ''charge.success R1''"
        and raw = "''charge.success R1''" and tx = "tx_of ''success''"
        and ev = "\<lparr>event = ''charge.success'', ev_data = Some (tx_of ''success'')\<rparr>"]
      confirmation_rewrites_subscription [OF sel' up', where cfg = cfg0
        and signature = None and raw = "[]" and tx = "tx_of ''success''"
        and ev = "\<lparr>event = ''charge.success'', ev_data = Some (tx_of ''success'')\<rparr>"]
    by (simp add: second_run_def repeated_verify_run_def)
qed

text \<open>
  The claim as stated fails on these two runs: after the verify the row of the organization
  carries the reference and runs from 15 January to 15 February, after the webhook for the
  same reference it runs from 16 January to 16 February.
\<close>

theorem redelivery_moves_subscription_dates:
  "map_option payment_reference (subscriptions (db_of first_run) ''org1'') = Some ''R1'' \<and>
   map_option start_date (subscriptions (db_of first_run) ''org1'') =
     Some \<lparr>year = 2025, month = 0, day = 15, msec = 36000000\<rparr> \<and>
   map_option end_date (subscriptions (db_of first_run) ''org1'') =
     Some \<lparr>year = 2025, month = 1, day = 15, msec = 36000000\<rparr> \<and>
   map_option payment_reference (subscriptions (db_of second_run) ''org1'') = Some ''R1'' \<and>
   map_option start_date (subscriptions (db_of second_run) ''org1'') =
     Some \<lparr>year = 2025, month = 0, day = 16, msec = 36000000\<rparr> \<and>
   map_option end_date (subscriptions (db_of second_run) ''org1'') =
     Some \<lparr>year = 2025, month = 1, day = 16, msec = 36000000\<rparr>"
proof -
  have sel: "select_payment (world (\<lambda>n. NetworkError) (at_day 16)) (db_of first_run)
               (tx_reference (tx_of ''success'')) =
             Some (mark_payment ''completed'' (at_day 15) (Some ''4099260516'')
                     (payment_R1 ''monthly'' ''pending''))"
    by (simp add: select_payment_Some first_run_payments)
  have "subscriptions (db_of second_run) ''org1'' =
          Some (subscriptionData (mark_payment ''completed'' (at_day 15) (Some ''4099260516'')
                     (payment_R1 ''monthly'' ''pending'')) ''R1'' (at_day 16)
                  (webhook_end_date ''monthly'' (at_day 16)))"
    unfolding second_run_def
    by (simp add: webhook_reached [OF cfg0_accepts_signed cfg0_parse_success]
        webhook_subscriptions [OF sel])
  then have "map_option payment_reference (subscriptions (db_of first_run) ''org1'') = Some ''R1'' \<and>
      map_option start_date (subscriptions (db_of first_run) ''org1'') = Some (at_day 15) \<and>
      map_option end_date (subscriptions (db_of first_run) ''org1'') =
        Some \<lparr>year = 2025, month = 1, day = 15, msec = 36000000\<rparr> \<and>
      map_option payment_reference (subscriptions (db_of second_run) ''org1'') = Some ''R1'' \<and>
      map_option start_date (subscriptions (db_of second_run) ''org1'') = Some (at_day 16) \<and>
      map_option end_date (subscriptions (db_of second_run) ''org1'') =
        Some \<lparr>year = 2025, month = 1, day = 16, msec = 36000000\<rparr>"
    by (simp add: first_run_subscriptions webhook_end_date_at_day verify_end_date_at_day)
  then show ?thesis
    by (simp add: at_day_def)
qed

subsection \<open>Confirmations of a payment that is already terminal\<close>




subsection \<open>The billing cycle\<close>

text \<open>
  C3 on the webhook route, for a payment whose \<open>billing_cycle\<close> is \<^verbatim>\<open>quarterly\<close>: the
  subscription starts on 15 January 2025 and ends on 15 January 2026, one year later and
  not one month, and no \<^verbatim>\<open>console.error\<close> line is written.
\<close>

theorem webhook_unknown_cycle_gets_a_year:
  "map_option start_date (subscriptions (db_of quarterly_webhook_run) ''org1'') =
     Some (at_day 15) \<and>
   map_option end_date (subscriptions (db_of quarterly_webhook_run) ''org1'') =
     Some \<lparr>year = 2026, month = 0, day = 15, msec = 36000000\<rparr> \<and>
   trace_of quarterly_webhook_run =
     [SelectPayment ''R1'', UpdatePayment ''R1'', UpsertSubscription ''org1'']"
proof -
  have run: "quarterly_webhook_run =
      webhook_process (world (\<lambda>n. NetworkError) (at_day 15))
        \<lparr>event = ''charge.success'', ev_data = Some (tx_of ''success'')\<rparr>
        (db_with (payment_R1 ''quarterly'' ''pending''))"
    by (simp add: quarterly_webhook_run_def
        webhook_reached [OF cfg0_accepts_signed cfg0_parse_success])
  have "trace_of quarterly_webhook_run =
     [SelectPayment ''R1'', UpdatePayment ''R1'', UpsertSubscription ''org1'']"
    by (simp add: run webhook_process_def trace_of_def Let_def case_prod_beta
        webhook_update_payment_def webhook_create_subscription_def)
  moreover have "subscriptions (db_of quarterly_webhook_run) ''org1'' =
     Some (subscriptionData (payment_R1 ''quarterly'' ''pending'') ''R1'' (at_day 15)
       (webhook_end_date ''quarterly'' (at_day 15)))"
    using webhook_subscriptions [of "world (\<lambda>n. NetworkError) (at_day 15)"
        "db_with (payment_R1 ''quarterly'' ''pending'')" "tx_of ''success''"
        "payment_R1 ''quarterly'' ''pending''"
        "\<lparr>event = ''charge.success'', ev_data = Some (tx_of ''success'')\<rparr>"]
    by (simp add: run)
  ultimately show ?thesis
    by (simp add: webhook_end_date_at_day)
qed

text \<open>
  The verify route on the same payment: the end date is 15 February 2025 and the unknown
  cycle is logged.
\<close>

lemma verify_unknown_cycle_gets_a_month:
  "map_option end_date (subscriptions (db_of quarterly_verify_run) ''org1'') =
     Some \<lparr>year = 2025, month = 1, day = 15, msec = 36000000\<rparr> \<and>
   ConsoleError ''UNKNOWN BILLING CYCLE:'' \<in> set (trace_of quarterly_verify_run)"
proof -
  have run: "quarterly_verify_run =
      verify_confirm (world (\<lambda>n. Reply (reply_of ''success'')) (at_day 15)) ''R1''
        (tx_of ''success'') (db_with (payment_R1 ''quarterly'' ''pending''))
        (loop_trace (world (\<lambda>n. Reply (reply_of ''success'')) (at_day 15)))"
    by (simp add: quarterly_verify_run_def verify_reached)
  have "ConsoleError ''UNKNOWN BILLING CYCLE:''
      \<in> set (snd (verify_end_date ''quarterly'' (at_day 15)))"
    by (simp add: verify_end_date_def)
  then show ?thesis
    by (simp add: run verify_subscriptions trace_of_verify_confirm
        trace_of_verify_create_subscription verify_end_date_at_day)
qed

subsection \<open>A gateway failure and the ledger\<close>

text \<open>
  C4, as the code has it. When the verify loop ends with a failed envelope, or a
  \<^verbatim>\<open>fetch\<close> throws, the route answers 400, respectively 500, before it reads or writes
  any table: the database is unchanged, so a pending payment stays pending, and the trace
  holds no call to the database, neither a read nor a write.
\<close>

theorem gateway_failure_leaves_ledger:
  assumes "ref \<noteq> []" and "\<not> not_configured (paystackSecretKey cfg)"
    and "envelope_failed amb \<or> gateway_unreachable amb"
  shows "db_of (paystack_verify cfg amb ref d) = d \<and>
         http_status (response_of (paystack_verify cfg amb ref d)) =
           (if gateway_unreachable amb then 500 else 400) \<and>
         filter is_db_call (trace_of (paystack_verify cfg amb ref d)) = [] \<and>
         filter is_db_write (trace_of (paystack_verify cfg amb ref d)) = []"
proof (cases "gateway_unreachable amb")
  case True
  with assms show ?thesis
    by (simp add: verify_gateway_unreachable is_db_write_def is_db_call_def)
next
  case False
  with assms have "envelope_failed amb"
    by simp
  with assms False show ?thesis
    by (simp add: verify_gateway_failed is_db_write_def is_db_call_def)
qed

text \<open>A provider that answers three times with a failed envelope, and one that cannot be reached.\<close>

theorem gateway_failure_leaves_ledger_witness:
  "db_of outage_run = pending_db \<and> http_status (response_of outage_run) = 400 \<and>
   filter is_db_call (trace_of outage_run) = [] \<and>
   db_of unreachable_run = pending_db \<and> http_status (response_of unreachable_run) = 500 \<and>
   filter is_db_call (trace_of unreachable_run) = []"
  using
    gateway_failure_leaves_ledger [of "''R1''" cfg0
      "world (\<lambda>n. Reply (error_reply ''Service unavailable'')) (at_day 15)" pending_db]
    gateway_failure_leaves_ledger [of "''R1''" cfg0
      "world (\<lambda>n. NetworkError) (at_day 15)" pending_db]
  by (simp add: outage_run_def unreachable_run_def)

text \<open>
  The claim as stated fails: after three failed envelopes the answer is 400 and the
  payment is still \<^verbatim>\<open>pending\<close>.
\<close>

theorem gateway_failure_stays_pending:
  "map_option status (payments (db_of outage_run) ''R1'') = Some ''pending'' \<and>
   http_status (response_of outage_run) = 400"
  by (simp add: outage_run_def verify_gateway_failed pending_db_def)

subsection \<open>The retry loop\<close>

text \<open>
  C5, as the code has it. The loop makes \<open>n\<close> attempts, between one and three. Every
  attempt before the last got a reply that was not a success, whatever else it said, and
  was followed by a sleep of 2000 ms. The loop ends before the third attempt only on an
  OK envelope with transaction status \<^verbatim>\<open>success\<close> (or on a \<^verbatim>\<open>fetch\<close> that throws); a
  definitive non-success is retried like a pending one. It returns the reply of its last
  attempt.
\<close>

theorem verify_loop_three_attempts:
  "\<exists>n. 1 \<le> n \<and> n \<le> 3 \<and>
     (\<forall>i. 1 \<le> i \<and> i < n \<longrightarrow> (\<exists>r. gw i = Reply r \<and> \<not> verified r)) \<and>
     (case gw n of
        NetworkError \<Rightarrow> verify_loop gw 0 None [] = LoopThrew (attempt_trace n)
      | Reply r \<Rightarrow> verify_loop gw 0 None [] = LoopDone (Some r) n (attempt_trace n)
                     \<and> (n < 3 \<longrightarrow> verified r))"
proof (cases "gw 1")
  case NetworkError
  then show ?thesis
    by (intro exI [of _ 1]) (simp add: loop0 attempt_trace_1 del: One_nat_def)
next
  case r1: (Reply r1)
  show ?thesis
  proof (cases "verified r1")
    case True
    with r1 show ?thesis
      by (intro exI [of _ 1]) (simp add: loop0 attempt_trace_1 del: One_nat_def)
  next
    case nv1: False
    show ?thesis
    proof (cases "gw 2")
      case NetworkError
      with r1 nv1 show ?thesis
        by (intro exI [of _ 2]) (simp add: loop0 loop1 attempt_trace_2 below2 del: One_nat_def)
    next
      case r2: (Reply r2)
      show ?thesis
      proof (cases "verified r2")
        case True
        with r1 nv1 r2 show ?thesis
          by (intro exI [of _ 2]) (simp add: loop0 loop1 attempt_trace_2 below2 del: One_nat_def)
      next
        case nv2: False
        with r1 nv1 r2 show ?thesis
          by (intro exI [of _ 3])
            (auto simp add: loop0 loop1 loop2 attempt_trace_3 below3 simp del: One_nat_def
              split: fetch_result.splits)
      qed
    qed
  qed
qed

theorem verify_loop_three_attempts_witness:
  "verify_loop settles_second 0 None [] =
     LoopDone (Some (reply_of ''success'')) 2 [Fetch 1, Sleep 2000, Fetch 2]"
proof -
  obtain n where n: "1 \<le> n" "n \<le> 3"
    and before: "\<forall>i. 1 \<le> i \<and> i < n \<longrightarrow> (\<exists>r. settles_second i = Reply r \<and> \<not> verified r)"
    and at: "case settles_second n of
        NetworkError \<Rightarrow> verify_loop settles_second 0 None [] = LoopThrew (attempt_trace n)
      | Reply r \<Rightarrow> verify_loop settles_second 0 None [] = LoopDone (Some r) n (attempt_trace n)
                     \<and> (n < 3 \<longrightarrow> verified r)"
    using verify_loop_three_attempts [of settles_second] by blast
  from n have "n = 1 \<or> n = 2 \<or> n = 3"
    by auto
  moreover have "n \<noteq> 1"
    using at by (auto simp: settles_second_def verified_reply_of)
  moreover have "n \<noteq> 3"
    using before by (auto simp: settles_second_def verified_reply_of dest!: spec [of _ 2])
  ultimately have "n = 2"
    by blast
  with at show ?thesis
    by (simp add: settles_second_def attempt_trace_2)
qed

text \<open>
  C5 as the claim has it fails: a first attempt that is answered with the definitive
  status \<^verbatim>\<open>failed\<close> is followed by two sleeps and two more attempts.
\<close>

theorem definitive_failure_is_retried:
  "verify_loop (\<lambda>n. Reply (reply_of ''failed'')) 0 None [] =
     LoopDone (Some (reply_of ''failed'')) 3 [Fetch 1, Sleep 2000, Fetch 2, Sleep 2000, Fetch 3]"
  by (simp add: loop0 loop1 loop2 verified_reply_of del: One_nat_def)

subsection \<open>A webhook with a bad signature\<close>

text \<open>
  C6. With a secret configured, a webhook request whose signature header is absent or is
  not the hex digest of the raw body under that secret is answered 401, and the result of
  the request is the database it started from: the body is not parsed, and the only
  effect is one \<^verbatim>\<open>console.error\<close> line.
\<close>

theorem bad_signature_rejected:
  assumes "paystackSecretKey cfg = Some secret" and "secret \<noteq> []"
    and "signature \<noteq> Some (createHmacSha512 (hmac_sha512 cfg) secret raw)"
  shows "paystack_webhook cfg amb signature raw d =
           (\<lparr>http_status = 401, body = ErrorBody ''Invalid signature''\<rparr>, d,
            [ConsoleError ''Invalid webhook signature''])"
  using assms by (auto simp: paystack_webhook_def)

text \<open>A forged signature and a missing header.\<close>

theorem bad_signature_rejected_witness:
  "forged_run = (\<lparr>http_status = 401, body = ErrorBody ''Invalid signature''\<rparr>, pending_db,
                 [ConsoleError ''Invalid webhook signature'']) \<and>
   unsigned_run = (\<lparr>http_status = 401, body = ErrorBody ''Invalid signature''\<rparr>, pending_db,
                   [ConsoleError ''Invalid webhook signature''])"
proof -
  have key: "paystackSecretKey cfg0 = Some ''sk''" and set: "''sk'' \<noteq> []"
    by (simp_all add: cfg0_def)
  have forged: "Some ''deadbeef'' \<noteq>
      Some (createHmacSha512 (hmac_sha512 cfg0) ''sk'' ''charge.success R1'')"
    by (simp add: cfg0_def createHmacSha512_def demo_hmac_def encode_def hex_byte_def
        hex_digit_def)
  have absent: "None \<noteq> Some (createHmacSha512 (hmac_sha512 cfg0) ''sk'' ''charge.success R1'')"
    by simp
  show ?thesis
    unfolding forged_run_def unsigned_run_def
    using bad_signature_rejected [OF key set forged] bad_signature_rejected [OF key set absent] by simp
qed

subsection \<open>A verify request without a payment row\<close>

text \<open>
  C7, as the code has it. A verify request for a reference without a payment row never
  changes the database and never issues a database write. With a reference and a
  configured key, it is answered 404 exactly when the loop ended with an OK envelope that
  carries a transaction, whatever the transaction's status, \<^verbatim>\<open>success\<close> included; the
  one call to the database is then the read of the payments table. The ledger is read
  only after the provider has answered: when the loop ended with a failed envelope the
  answer is 400, and when the provider could not be reached or its OK envelope carried no
  transaction the answer is 500, in both cases without any call to the database.
\<close>

theorem missing_payment_no_side_effect:
  assumes "payments d ref = None"
  shows "db_of (paystack_verify cfg amb ref d) = d \<and>
         filter is_db_write (trace_of (paystack_verify cfg amb ref d)) = [] \<and>
         (ref \<noteq> [] \<and> \<not> not_configured (paystackSecretKey cfg) \<and>
          gateway_answer amb = Some tx \<longrightarrow>
            response_of (paystack_verify cfg amb ref d) =
              \<lparr>http_status = 404, body = PaymentNotFound ref\<rparr> \<and>
            filter is_db_call (trace_of (paystack_verify cfg amb ref d)) = [SelectPayment ref]) \<and>
         (ref \<noteq> [] \<and> \<not> not_configured (paystackSecretKey cfg) \<longrightarrow>
            (http_status (response_of (paystack_verify cfg amb ref d)) = 404 \<longleftrightarrow>
             gateway_answer amb \<noteq> None)) \<and>
         (ref \<noteq> [] \<and> \<not> not_configured (paystackSecretKey cfg) \<and> envelope_failed amb \<longrightarrow>
            http_status (response_of (paystack_verify cfg amb ref d)) = 400 \<and>
            filter is_db_call (trace_of (paystack_verify cfg amb ref d)) = []) \<and>
         (ref \<noteq> [] \<and> \<not> not_configured (paystackSecretKey cfg) \<and>
          gateway_answer amb = None \<and> \<not> envelope_failed amb \<longrightarrow>
            http_status (response_of (paystack_verify cfg amb ref d)) = 500 \<and>
            filter is_db_call (trace_of (paystack_verify cfg amb ref d)) = [])"
proof -
  let ?R = "paystack_verify cfg amb ref d"
  have none: "select_payment amb d ref = None"
    using assms by (simp add: select_payment_def)
  have unchanged: "db_of ?R = d"
    by (auto simp: paystack_verify_def db_of_def edge_function_error_def
        verify_confirm_not_found [OF none] split: loop_exit.splits option.splits)
  have quiet: "filter is_db_write (trace_of ?R) = []"
  proof -
    have "trace_of ?R = [ConsoleError ''No reference provided'']
        \<or> trace_of ?R = [ConsoleError ''PAYSTACK_SECRET_KEY not set!'']
        \<or> (\<exists>tl. trace_of ?R = loop_trace amb @ tl \<and> filter is_db_write tl = [])"
      by (auto simp: paystack_verify_def trace_of_def edge_function_error_def loop_trace_def
          verify_confirm_not_found [OF none] is_db_write_def
          split: loop_exit.splits option.splits)
    then show ?thesis
      by (auto simp: is_db_write_def)
  qed
  have not_found: "response_of ?R = \<lparr>http_status = 404, body = PaymentNotFound ref\<rparr> \<and>
      filter is_db_call (trace_of ?R) = [SelectPayment ref]"
    if "ref \<noteq> [] \<and> \<not> not_configured (paystackSecretKey cfg) \<and> gateway_answer amb = Some tx"
    for tx
    using that
    by (simp add: verify_reached verify_confirm_not_found [OF none] response_of_def
        trace_of_def is_db_call_def)
  have bad_request: "http_status (response_of ?R) = 400 \<and> filter is_db_call (trace_of ?R) = []"
    if "ref \<noteq> [] \<and> \<not> not_configured (paystackSecretKey cfg) \<and> envelope_failed amb"
    using that by (simp add: verify_gateway_failed is_db_call_def)
  have thrown: "http_status (response_of ?R) = 500 \<and> filter is_db_call (trace_of ?R) = []"
    if "ref \<noteq> [] \<and> \<not> not_configured (paystackSecretKey cfg) \<and>
        gateway_answer amb = None \<and> \<not> envelope_failed amb"
    using that by (simp add: verify_no_transaction is_db_call_def)
  have exactly: "http_status (response_of ?R) = 404 \<longleftrightarrow> gateway_answer amb \<noteq> None"
    if ready: "ref \<noteq> [] \<and> \<not> not_configured (paystackSecretKey cfg)"
  proof (cases "gateway_answer amb")
    case (Some tx)
    with ready not_found [of tx] show ?thesis
      by simp
  next
    case None
    show ?thesis
    proof (cases "envelope_failed amb")
      case True
      with ready bad_request None show ?thesis
        by simp
    next
      case False
      with ready thrown None show ?thesis
        by simp
    qed
  qed
  show ?thesis
    using unchanged quiet not_found [of tx] bad_request thrown exactly by blast
qed

text \<open>
  The provider reports success for a reference the ledger does not have; the provider does
  not know the reference either; the provider's OK envelope carries no transaction.
\<close>

theorem missing_payment_no_side_effect_witness:
  "db_of orphan_run = db_without \<and>
   response_of orphan_run = \<lparr>http_status = 404, body = PaymentNotFound ''R1''\<rparr> \<and>
   filter is_db_call (trace_of orphan_run) = [SelectPayment ''R1''] \<and>
   db_of unknown_reference_run = db_without \<and>
   filter is_db_call (trace_of unknown_reference_run) = [] \<and>
   db_of no_data_run = db_without \<and>
   http_status (response_of no_data_run) = 500 \<and>
   filter is_db_call (trace_of no_data_run) = []"
proof -
  have none: "payments db_without ''R1'' = None"
    by (simp add: db_without_def)
  show ?thesis
    unfolding orphan_run_def unknown_reference_run_def no_data_run_def
    using
      missing_payment_no_side_effect [OF none, of cfg0
        "world (\<lambda>n. Reply (reply_of ''success'')) (at_day 15)" "tx_of ''success''"]
      missing_payment_no_side_effect [OF none, of cfg0
        "world (\<lambda>n. Reply (error_reply ''Transaction reference not found'')) (at_day 15)"
        "tx_of ''success''"]
      missing_payment_no_side_effect [OF none, of cfg0
        "world (\<lambda>n. Reply no_data_reply) (at_day 15)" "tx_of ''success''"]
    by simp
qed

text \<open>
  The claim as stated fails: neither the ledger nor the provider knows the reference, and
  the answer is 400 with the provider's message, not 404.
\<close>

theorem missing_payment_gateway_failure:
  "payments db_without ''R1'' = None \<and>
   http_status (response_of unknown_reference_run) = 400 \<and>
   body (response_of unknown_reference_run) = VerifyFailed ''Transaction reference not found''"
  by (simp add: db_without_def unknown_reference_run_def paystack_verify_def loop0 loop1 loop2
      verified_def error_reply_def response_of_def not_configured_def cfg0_def world_def
      del: One_nat_def)

subsection \<open>Webhook events other than a successful charge\<close>

text \<open>
  C8. A webhook request that passes the signature check and parses, and whose event type
  is not \<^verbatim>\<open>charge.success\<close>, is answered 200 with \<^verbatim>\<open>{success: true}\<close>; the database is
  unchanged and the request has no effect at all, not even a read.
\<close>

theorem other_events_acknowledged:
  assumes "webhook_accepts cfg signature raw" and "json_parse cfg raw = Some ev"
    and "event ev \<noteq> ''charge.success''"
  shows "paystack_webhook cfg amb signature raw d =
           (\<lparr>http_status = 200, body = WebhookAck\<rparr>, d, [])"
  using assms by (simp add: webhook_reached webhook_process_def webhook_ack_def)

text \<open>A signed \<^verbatim>\<open>charge.failed\<close> event.\<close>

theorem other_events_acknowledged_witness:
  "ignored_event_run = (\<lparr>http_status = 200, body = WebhookAck\<rparr>, pending_db, [])"
  unfolding ignored_event_run_def
  using other_events_acknowledged [OF cfg0_accepts_signed cfg0_parse_failed]
  by simp

subsection \<open>A failing update of the organization\<close>

text \<open>
  C9. On the verify route, after a successful upsert, an update of the organizations table
  that reports an error or throws changes nothing else: the answer is the 200 success
  envelope, the subscription row of the organization is the row just written, the
  organizations table is as it was, the update was issued exactly once, and the failure is
  on the error log.
\<close>

theorem organization_sync_failure_swallowed:
  assumes "ref \<noteq> []" and "\<not> not_configured (paystackSecretKey cfg)"
    and "gateway_answer amb = Some tx" and "tx_status tx = ''success''"
    and "select_payment amb d ref = Some p" and "\<not> upsert_error amb"
    and "org_update amb = ReturnsError \<or> org_update amb = Throws"
  shows "response_of (paystack_verify cfg amb ref d) =
           \<lparr>http_status = 200,
            body = VerifyOk ''success'' (of_int (tx_amount tx) / 100) (tx_reference tx)
                     (tx_paid_at tx)\<rparr> \<and>
         subscriptions (db_of (paystack_verify cfg amb ref d)) (organization_id p) =
           Some (subscriptionData p ref (t_start amb)
                   (fst (verify_end_date (billing_cycle p) (t_end amb)))) \<and>
         organizations (db_of (paystack_verify cfg amb ref d)) = organizations d \<and>
         length (filter is_org_update (trace_of (paystack_verify cfg amb ref d))) = 1 \<and>
         ConsoleError (if org_update amb = Throws then ''Exception updating organization:''
                       else ''Failed to update organization:'')
           \<in> set (trace_of (paystack_verify cfg amb ref d))"
proof -
  have run: "paystack_verify cfg amb ref d = verify_confirm amb ref tx d (loop_trace amb)"
    using assms by (simp add: verify_reached)
  have fails: "org_update amb \<noteq> Succeeds"
    using assms by auto
  have "response_of (paystack_verify cfg amb ref d) =
           \<lparr>http_status = 200,
            body = VerifyOk ''success'' (of_int (tx_amount tx) / 100) (tx_reference tx)
                     (tx_paid_at tx)\<rparr>"
    using assms by (simp add: run response_of_verify_confirm)
  moreover have "subscriptions (db_of (paystack_verify cfg amb ref d)) (organization_id p) =
           Some (subscriptionData p ref (t_start amb)
                   (fst (verify_end_date (billing_cycle p) (t_end amb))))"
    using assms by (simp add: run verify_subscriptions)
  moreover have "organizations (db_of (paystack_verify cfg amb ref d)) = organizations d"
    using assms fails
    by (simp add: run db_of_verify_confirm organizations_verify_create_subscription)
  moreover have "length (filter is_org_update (trace_of (paystack_verify cfg amb ref d))) = 1"
    using assms
    by (simp add: run trace_of_verify_confirm trace_of_verify_create_subscription
        is_org_update_def)
  moreover have "ConsoleError (if org_update amb = Throws then ''Exception updating organization:''
                       else ''Failed to update organization:'')
           \<in> set (trace_of (paystack_verify cfg amb ref d))"
    using assms update_organization_logs [OF fails]
    by (simp add: run trace_of_verify_confirm trace_of_verify_create_subscription)
  ultimately show ?thesis
    by blast
qed

text \<open>The update throws, and the update reports an error.\<close>

theorem organization_sync_failure_swallowed_witness:
  "response_of (org_sync_run Throws) =
     \<lparr>http_status = 200,
      body = VerifyOk ''success'' 5000 ''R1'' (Some ''2025-01-15T10:00:00.000Z'')\<rparr> \<and>
   map_option payment_reference (subscriptions (db_of (org_sync_run Throws)) ''org1'') =
     Some ''R1'' \<and>
   organizations (db_of (org_sync_run Throws)) ''org1'' = Some org1 \<and>
   length (filter is_org_update (trace_of (org_sync_run Throws))) = 1 \<and>
   ConsoleError ''Exception updating organization:'' \<in> set (trace_of (org_sync_run Throws)) \<and>
   response_of (org_sync_run ReturnsError) = response_of (org_sync_run Throws) \<and>
   ConsoleError ''Failed to update organization:''
     \<in> set (trace_of (org_sync_run ReturnsError))"
proof -
  have ref: "''R1'' \<noteq> []"
    by simp
  have "org_update (sync_fails Throws) = ReturnsError \<or> org_update (sync_fails Throws) = Throws"
    and "org_update (sync_fails ReturnsError) = ReturnsError \<or>
         org_update (sync_fails ReturnsError) = Throws"
    by simp_all
  then show ?thesis
    unfolding org_sync_run_def pending_db_def
    using organization_sync_failure_swallowed [OF ref cfg0_configured sync_fails_simps(1) tx_of_simps(1) sync_fails_simps(2)
        sync_fails_simps(3), of Throws "payment_R1 ''monthly'' ''pending''"]
      organization_sync_failure_swallowed [OF ref cfg0_configured sync_fails_simps(1) tx_of_simps(1) sync_fails_simps(2)
        sync_fails_simps(3), of ReturnsError "payment_R1 ''monthly'' ''pending''"]
    by simp
qed

subsection \<open>A transaction that did not succeed\<close>

text \<open>
  C10, as the code has it. On the verify route, when the loop ended with an OK envelope
  whose transaction has a status other than \<^verbatim>\<open>success\<close>, the answer depends on the ledger.
  If the payment row is found, the answer is 200 with \<^verbatim>\<open>success: true\<close> and the provider's
  status; the payment is marked \<^verbatim>\<open>failed\<close>, unless the update reports an error, which
  leaves the payments table as it was; the subscriptions table is unchanged. If it is not found, the answer is 404 with
  \<^verbatim>\<open>success: false\<close> and the database is unchanged. An answer of 400 with
  \<^verbatim>\<open>success: false\<close> is given exactly when the loop ended with a failed envelope.
\<close>

theorem non_success_status_still_200:
  "(ref \<noteq> [] \<and> \<not> not_configured (paystackSecretKey cfg) \<and> gateway_answer amb = Some tx \<and>
    tx_status tx \<noteq> ''success'' \<and> select_payment amb d ref = Some p \<longrightarrow>
      response_of (paystack_verify cfg amb ref d) =
        \<lparr>http_status = 200,
         body = VerifyOk (tx_status tx) (of_int (tx_amount tx) / 100) (tx_reference tx)
                  (tx_paid_at tx)\<rparr> \<and>
      success_flag (body (response_of (paystack_verify cfg amb ref d))) = Some True \<and>
      (\<not> update_error amb \<longrightarrow>
         payments (db_of (paystack_verify cfg amb ref d)) ref =
           Some (mark_payment ''failed'' (t_verified amb) (tx_id tx) p)) \<and>
      (update_error amb \<longrightarrow>
         payments (db_of (paystack_verify cfg amb ref d)) = payments d) \<and>
      subscriptions (db_of (paystack_verify cfg amb ref d)) = subscriptions d) \<and>
   (ref \<noteq> [] \<and> \<not> not_configured (paystackSecretKey cfg) \<and> gateway_answer amb = Some tx \<and>
    tx_status tx \<noteq> ''success'' \<and> select_payment amb d ref = None \<longrightarrow>
      response_of (paystack_verify cfg amb ref d) =
        \<lparr>http_status = 404, body = PaymentNotFound ref\<rparr> \<and>
      success_flag (body (response_of (paystack_verify cfg amb ref d))) = Some False \<and>
      db_of (paystack_verify cfg amb ref d) = d) \<and>
   (http_status (response_of (paystack_verify cfg amb ref d)) = 400 \<and>
    success_flag (body (response_of (paystack_verify cfg amb ref d))) = Some False \<longleftrightarrow>
    ref \<noteq> [] \<and> \<not> not_configured (paystackSecretKey cfg) \<and> envelope_failed amb)"
proof (intro conjI impI)
  assume a: "ref \<noteq> [] \<and> \<not> not_configured (paystackSecretKey cfg) \<and>
    gateway_answer amb = Some tx \<and> tx_status tx \<noteq> ''success'' \<and>
    select_payment amb d ref = Some p"
  then have run: "paystack_verify cfg amb ref d = verify_confirm amb ref tx d (loop_trace amb)"
    by (simp add: verify_reached)
  from a show "response_of (paystack_verify cfg amb ref d) =
        \<lparr>http_status = 200,
         body = VerifyOk (tx_status tx) (of_int (tx_amount tx) / 100) (tx_reference tx)
                  (tx_paid_at tx)\<rparr>"
    by (simp add: run response_of_verify_confirm)
  then show "success_flag (body (response_of (paystack_verify cfg amb ref d))) = Some True"
    by simp
  from a show "subscriptions (db_of (paystack_verify cfg amb ref d)) = subscriptions d"
    by (simp add: run db_of_verify_confirm verify_create_subscription_def)
  show "payments (db_of (paystack_verify cfg amb ref d)) ref =
           Some (mark_payment ''failed'' (t_verified amb) (tx_id tx) p)"
    if "\<not> update_error amb"
    using a that by (simp add: run verify_payments)
  show "payments (db_of (paystack_verify cfg amb ref d)) = payments d"
    if "update_error amb"
    using a that by (simp add: run db_of_verify_confirm verify_update_payment_def)
next
  assume a: "ref \<noteq> [] \<and> \<not> not_configured (paystackSecretKey cfg) \<and>
    gateway_answer amb = Some tx \<and> tx_status tx \<noteq> ''success'' \<and>
    select_payment amb d ref = None"
  then have run: "paystack_verify cfg amb ref d = verify_confirm amb ref tx d (loop_trace amb)"
    by (simp add: verify_reached)
  from a show "response_of (paystack_verify cfg amb ref d) =
        \<lparr>http_status = 404, body = PaymentNotFound ref\<rparr>"
    by (simp add: run verify_confirm_not_found response_of_def)
  then show "success_flag (body (response_of (paystack_verify cfg amb ref d))) = Some False"
    by simp
  from a show "db_of (paystack_verify cfg amb ref d) = d"
    by (simp add: run verify_confirm_not_found db_of_def)
next
  show "http_status (response_of (paystack_verify cfg amb ref d)) = 400 \<and>
    success_flag (body (response_of (paystack_verify cfg amb ref d))) = Some False \<longleftrightarrow>
    ref \<noteq> [] \<and> \<not> not_configured (paystackSecretKey cfg) \<and> envelope_failed amb"
    by (rule bad_request_iff)
qed

text \<open>
  An abandoned transaction with its payment row, the same without the row, and a provider
  outage.
\<close>

theorem non_success_status_still_200_witness:
  "response_of abandoned_run =
     \<lparr>http_status = 200,
      body = VerifyOk ''abandoned'' 5000 ''R1'' (Some ''2025-01-15T10:00:00.000Z'')\<rparr> \<and>
   success_flag (body (response_of abandoned_run)) = Some True \<and>
   map_option status (payments (db_of abandoned_run) ''R1'') = Some ''failed'' \<and>
   subscriptions (db_of abandoned_run) = Map.empty \<and>
   response_of abandoned_orphan_run = \<lparr>http_status = 404, body = PaymentNotFound ''R1''\<rparr> \<and>
   db_of abandoned_orphan_run = db_without \<and>
   http_status (response_of outage_run) = 400 \<and>
   success_flag (body (response_of outage_run)) = Some False"
  using
    non_success_status_still_200 [of "''R1''" cfg0
      "world (\<lambda>n. Reply (reply_of ''abandoned'')) (at_day 15)"
      "tx_of ''abandoned''" pending_db "payment_R1 ''monthly'' ''pending''"]
    non_success_status_still_200 [of "''R1''" cfg0
      "world (\<lambda>n. Reply (reply_of ''abandoned'')) (at_day 15)"
      "tx_of ''abandoned''" db_without "payment_R1 ''monthly'' ''pending''"]
    non_success_status_still_200 [of "''R1''" cfg0
      "world (\<lambda>n. Reply (error_reply ''Service unavailable'')) (at_day 15)"
      "tx_of ''abandoned''" pending_db "payment_R1 ''monthly'' ''pending''"]
  by (simp add: abandoned_run_def abandoned_orphan_run_def outage_run_def pending_db_def)

text \<open>
  The claim as stated fails: the envelope is OK, the transaction is \<^verbatim>\<open>abandoned\<close>, the
  ledger has no row for the reference, and the answer is 404 with \<^verbatim>\<open>success: false\<close>.
\<close>

theorem non_success_without_payment_row:
  "payments db_without ''R1'' = None \<and>
   gateway_answer (world (\<lambda>n. Reply (reply_of ''abandoned'')) (at_day 15)) =
     Some (tx_of ''abandoned'') \<and>
   tx_status (tx_of ''abandoned'') = ''abandoned'' \<and>
   http_status (response_of abandoned_orphan_run) = 404 \<and>
   success_flag (body (response_of abandoned_orphan_run)) = Some False"
proof -
  have "payments db_without ''R1'' = None"
    by (simp add: db_without_def)
  moreover have "response_of abandoned_orphan_run =
      \<lparr>http_status = 404, body = PaymentNotFound ''R1''\<rparr>"
    by (simp add: abandoned_orphan_run_def verify_reached verify_confirm_not_found
        response_of_def)
  ultimately show ?thesis
    by simp
qed

end
